theory Spec2Isabelle
  imports Complex_Main
begin

section \<open>Python values\<close>

text \<open>
  Jobs, token snapshots, filter records and store rows are JSON values in the source
  (Python dicts built by \<^verbatim>\<open>json.loads\<close> and by the helper functions). A dict is an
  association list read from the front: \<^verbatim>\<open>d[k] = v\<close> puts a pair in front and
  \<^verbatim>\<open>d.update(e)\<close> puts \<^verbatim>\<open>e\<close> in front. Numbers are rationals: Python's
  \<^verbatim>\<open>int\<close> exactly, its \<^verbatim>\<open>float\<close> without rounding, NaN or infinities.
  Strings are byte strings; \<^verbatim>\<open>lower\<close> and \<^verbatim>\<open>capitalize\<close> act on ASCII letters.
\<close>

datatype json =
    JNull
  | JBool bool
  | JNum rat
  | JStr string
  | JList "json list"
  | JDict "(string \<times> json) list"

type_synonym pydict = "(string \<times> json) list"

text \<open>Python's truth value of an object (\<^verbatim>\<open>if x:\<close>, \<^verbatim>\<open>not x\<close>).\<close>

fun truthy :: "json \<Rightarrow> bool" where
  "truthy JNull = False"
| "truthy (JBool b) = b"
| "truthy (JNum n) = (n \<noteq> 0)"
| "truthy (JStr s) = (s \<noteq> [])"
| "truthy (JList xs) = (xs \<noteq> [])"
| "truthy (JDict kvs) = (kvs \<noteq> [])"

text \<open>\<^verbatim>\<open>d.get(k)\<close> and \<^verbatim>\<open>d.get(k, default)\<close>.\<close>

definition dict_get :: "pydict \<Rightarrow> string \<Rightarrow> json" where
  "dict_get d k = (case map_of d k of None \<Rightarrow> JNull | Some v \<Rightarrow> v)"

definition dict_get_default :: "pydict \<Rightarrow> string \<Rightarrow> json \<Rightarrow> json" where
  "dict_get_default d k dflt = (case map_of d k of None \<Rightarrow> dflt | Some v \<Rightarrow> v)"

text \<open>\<^verbatim>\<open>d[k] = v\<close> and \<^verbatim>\<open>d.update(e)\<close>.\<close>

definition dict_set :: "pydict \<Rightarrow> string \<Rightarrow> json \<Rightarrow> pydict" where
  "dict_set d k v = (k, v) # d"

definition dict_update :: "pydict \<Rightarrow> pydict \<Rightarrow> pydict" where
  "dict_update d e = e @ d"

section \<open>Errors\<close>

text \<open>
  Every exception the modelled code can meet. \<^verbatim>\<open>str(e)\<close> is what the worker
  stores as \<^verbatim>\<open>last_error\<close>.
\<close>

datatype error =
    KeyError string
  | TypeError
  | AttributeError
  | IndexError
  | ValueError
  | UniqueViolation
  | StoreError
  | CollaboratorError string
  | Failure string
  | HTTPException nat string

fun str_of_error :: "error \<Rightarrow> string" where
  "str_of_error (KeyError k) = k"
| "str_of_error TypeError = ''TypeError''"
| "str_of_error AttributeError = ''AttributeError''"
| "str_of_error IndexError = ''list index out of range''"
| "str_of_error ValueError = ''ValueError''"
| "str_of_error UniqueViolation = ''23505''"
| "str_of_error StoreError = ''StoreError''"
| "str_of_error (CollaboratorError m) = m"
| "str_of_error (Failure m) = m"
| "str_of_error (HTTPException c m) = m"

section \<open>Configuration, jobs and the shared state\<close>

text \<open>
  \<^verbatim>\<open>config/settings.py\<close> is not part of the sources; the constants the worker
  imports from it are parameters.
\<close>

record settings =
  MAX_RETRIES :: int
  RETRY_DELAY :: rat

text \<open>
  A queued job (\<^verbatim>\<open>event_data\<close>) with the keys the gateway writes
  (ingestion\_service.py, \<^verbatim>\<open>process_webhook\<close>). A key that only some event types
  carry is an option, \<^verbatim>\<open>None\<close> when the dict has no such key.
\<close>

record event_data =
  event_id :: json
  event_type :: string
  chain_id :: json
  block_number :: json
  received_at :: string
  address :: "json option"
  token_address :: "json option"
  pair_address :: "json option"
  transformed_data :: "json option"
  raw_data :: json
  retry_count :: "int option"
  last_error :: "string option"
  last_retry :: "string option"

text \<open>
  The state shared by the processes: the Redis structures, the relational store
  (four tables), the Firestore counters, the wall clock, and the script of store faults.
  \<^item> \<^verbatim>\<open>webhook_queue\<close>, \<^verbatim>\<open>failed_events\<close>, \<^verbatim>\<open>notification_queue\<close>: Redis lists,
    \<^verbatim>\<open>rpush\<close> appends at the end;
  \<^item> \<^verbatim>\<open>retry_queue\<close>: a Redis sorted set, members with their scores;
  \<^item> \<^verbatim>\<open>clock\<close>: what \<^verbatim>\<open>time.time()\<close> returns, \<^verbatim>\<open>utc_stamp\<close> what
    \<^verbatim>\<open>datetime.utcnow().isoformat()\<close> returns;
  \<^item> \<^verbatim>\<open>store_faults\<close>: one entry per request to the relational store still to come;
    \<^verbatim>\<open>True\<close> makes that request raise. An empty script means no more faults.
\<close>

record world =
  webhook_queue :: "event_data list"
  retry_queue :: "(event_data \<times> rat) list"
  failed_events :: "event_data list"
  notification_queue :: "(string \<times> pydict) list"
  tokens :: "pydict list"
  source_code :: "pydict list"
  token_information :: "pydict list"
  gpl_audit :: "pydict list"
  next_id :: nat
  total_counter :: nat
  scams_counter :: nat
  risky_counter :: nat
  clock :: rat
  utc_stamp :: string
  store_faults :: "bool list"

section \<open>The durable work queue\<close>

text \<open>
  \<^verbatim>\<open>redis.zadd(key, {member: score})\<close>: a member already in the set gets the new
  score, a new member is added.
\<close>

fun zadd :: "('a \<times> rat) list \<Rightarrow> 'a \<Rightarrow> rat \<Rightarrow> ('a \<times> rat) list" where
  "zadd [] m s = [(m, s)]"
| "zadd ((m', s') # q) m s = (if m' = m then (m, s) # q else (m', s') # zadd q m s)"

text \<open>
  \<^verbatim>\<open>handle_failed_event\<close> (processing\_worker.py, lines 85--99). It mutates the job
  and one of the two Redis structures; the model returns the updated job with the state.
  \<^verbatim>\<open>2 ** (retry_count - 1)\<close> is Python's power with an integer exponent.
\<close>

definition handle_failed_event ::
  "settings \<Rightarrow> event_data \<Rightarrow> string \<Rightarrow> world \<Rightarrow> event_data \<times> world" where
  "handle_failed_event cfg ev err w =
     (let rc = (case retry_count ev of None \<Rightarrow> 0 | Some n \<Rightarrow> n) + 1;
          ev' = ev\<lparr>retry_count := Some rc, last_error := Some err,
                   last_retry := Some (utc_stamp w)\<rparr>
      in if rc \<le> MAX_RETRIES cfg then
           (let delay = RETRY_DELAY cfg * (2 powi (rc - 1));
                retry_at = clock w + delay
            in (ev', w\<lparr>retry_queue := zadd (retry_queue w) ev' retry_at\<rparr>))
         else (ev', w\<lparr>failed_events := failed_events w @ [ev']\<rparr>))"


section \<open>Notification filters\<close>

text \<open>Exceptions in pure code: the first error ends the computation.\<close>

definition ebind :: "error + 'a \<Rightarrow> ('a \<Rightarrow> error + 'b) \<Rightarrow> error + 'b" where
  "ebind m f = (case m of Inl e \<Rightarrow> Inl e | Inr x \<Rightarrow> f x)"

text \<open>\<^verbatim>\<open>str.lower()\<close> and \<^verbatim>\<open>str.capitalize()\<close> on ASCII letters.\<close>

definition lower_char :: "char \<Rightarrow> char" where
  "lower_char c =
     (case map_of (zip ''ABCDEFGHIJKLMNOPQRSTUVWXYZ'' ''abcdefghijklmnopqrstuvwxyz'') c of
        None \<Rightarrow> c | Some l \<Rightarrow> l)"

definition upper_char :: "char \<Rightarrow> char" where
  "upper_char c =
     (case map_of (zip ''abcdefghijklmnopqrstuvwxyz'' ''ABCDEFGHIJKLMNOPQRSTUVWXYZ'') c of
        None \<Rightarrow> c | Some u \<Rightarrow> u)"

definition lower :: "string \<Rightarrow> string" where
  "lower s = map lower_char s"

fun capitalize :: "string \<Rightarrow> string" where
  "capitalize [] = []"
| "capitalize (c # cs) = upper_char c # map lower_char cs"

text \<open>
  \<^verbatim>\<open>x.lower()\<close> on a value read from a dict: only a string has the method, anything
  else raises \<^verbatim>\<open>AttributeError\<close>.
\<close>

fun py_lower :: "json \<Rightarrow> error + string" where
  "py_lower (JStr s) = Inr (lower s)"
| "py_lower _ = Inl AttributeError"

text \<open>\<^verbatim>\<open>str.strip()\<close> and \<^verbatim>\<open>str.replace('%', '')\<close>.\<close>

definition is_space :: "char \<Rightarrow> bool" where
  "is_space c = (c \<in> set [CHR '' '', CHR 0x09, CHR 0x0A, CHR 0x0B, CHR 0x0C, CHR 0x0D])"

definition strip :: "string \<Rightarrow> string" where
  "strip s = rev (dropWhile is_space (rev (dropWhile is_space s)))"

definition remove_percent :: "string \<Rightarrow> string" where
  "remove_percent s = filter (\<lambda>c. c \<noteq> CHR ''%'') s"

text \<open>
  \<^verbatim>\<open>float(x)\<close>. Parsing a string is Python's own (the parameter \<open>pf\<close>, \<^verbatim>\<open>None\<close>
  where \<^verbatim>\<open>float\<close> raises \<^verbatim>\<open>ValueError\<close>).
\<close>

fun py_float :: "(string \<Rightarrow> rat option) \<Rightarrow> json \<Rightarrow> error + rat" where
  "py_float pf (JNum n) = Inr n"
| "py_float pf (JBool b) = Inr (if b then 1 else 0)"
| "py_float pf (JStr s) = (case pf s of None \<Rightarrow> Inl ValueError | Some r \<Rightarrow> Inr r)"
| "py_float pf _ = Inl TypeError"

text \<open>
  \<^verbatim>\<open>float(str(x).replace('%', '').strip())\<close>: the text of a number parses back to
  the number; the text of \<^verbatim>\<open>True\<close>, \<^verbatim>\<open>None\<close>, a list or a dict does not parse.
\<close>

fun py_float_of_str :: "(string \<Rightarrow> rat option) \<Rightarrow> json \<Rightarrow> error + rat" where
  "py_float_of_str pf (JNum n) = Inr n"
| "py_float_of_str pf (JStr s) =
     (case pf (strip (remove_percent s)) of None \<Rightarrow> Inl ValueError | Some r \<Rightarrow> Inr r)"
| "py_float_of_str pf _ = Inl ValueError"

text \<open>\<^verbatim>\<open>x < y\<close> for a value \<^verbatim>\<open>x\<close> read from a dict and a float \<^verbatim>\<open>y\<close>.\<close>

fun py_less :: "json \<Rightarrow> rat \<Rightarrow> error + bool" where
  "py_less (JNum n) y = Inr (n < y)"
| "py_less (JBool b) y = Inr ((if b then 1 else 0) < y)"
| "py_less _ y = Inl TypeError"

text \<open>
  Iterating over a value (\<^verbatim>\<open>for b in x\<close>): the items of a list, the characters of a
  string, the keys of a dict; anything else raises \<^verbatim>\<open>TypeError\<close>.
\<close>

fun py_iter :: "json \<Rightarrow> error + json list" where
  "py_iter (JList xs) = Inr xs"
| "py_iter (JStr s) = Inr (map (\<lambda>c. JStr [c]) s)"
| "py_iter (JDict kvs) = Inr (map JStr (remdups (map fst kvs)))"
| "py_iter _ = Inl TypeError"

text \<open>\<^verbatim>\<open>[b.lower() for b in xs]\<close>.\<close>

fun lower_all :: "json list \<Rightarrow> error + string list" where
  "lower_all [] = Inr []"
| "lower_all (b # bs) =
     ebind (py_lower b) (\<lambda>l. ebind (lower_all bs) (\<lambda>ls. Inr (l # ls)))"

text \<open>
  \<^verbatim>\<open>chain_id_mapping.get(x)\<close> (notification\_worker.py, lines 50--53): a list or a
  dict is not hashable and raises \<^verbatim>\<open>TypeError\<close>.
\<close>

fun chain_id_mapping_get :: "json \<Rightarrow> error + string option" where
  "chain_id_mapping_get (JStr s) =
     Inr (if s = ''0x1'' then Some ''Ethereum''
          else if s = ''0xaa36a7'' then Some ''Sepolia Testnet'' else None)"
| "chain_id_mapping_get (JList xs) = Inl TypeError"
| "chain_id_mapping_get (JDict kvs) = Inl TypeError"
| "chain_id_mapping_get _ = Inr None"

text \<open>\<^verbatim>\<open>check_socials_exist\<close> (notification\_worker.py, lines 285--289).\<close>

definition check_socials_exist :: "pydict \<Rightarrow> bool" where
  "check_socials_exist token_data =
     (\<exists>key \<in> set [''twitter'', ''telegram'', ''discord'', ''website'']. truthy (dict_get token_data key))"

text \<open>\<^verbatim>\<open>risk_level_mapping.get(k, -1)\<close> (lines 295--300, 365--366).\<close>

definition risk_level_mapping_get :: "string \<Rightarrow> int" where
  "risk_level_mapping_get k =
     (if k = ''Safe'' then 0 else if k = ''Low'' then 1 else if k = ''Medium'' then 2
      else if k = ''High'' then 3 else - 1)"

text \<open>
  The blockchain check (line 325): \<^verbatim>\<open>True\<close> when the snapshot is excluded. The list
  comprehension runs only when both operands before it are true.
\<close>

definition blockchain_excluded :: "json \<Rightarrow> string option \<Rightarrow> error + bool" where
  "blockchain_excluded filter_blockchain message_blockchain =
     (if \<not> truthy filter_blockchain then Inr False
      else case message_blockchain of
             None \<Rightarrow> Inr False
           | Some mb \<Rightarrow>
               if mb = [] then Inr False
               else ebind (py_iter filter_blockchain) (\<lambda>bs.
                    ebind (lower_all bs) (\<lambda>ls. Inr (lower mb \<notin> set ls))))"

text \<open>
  The locked-liquidity check (lines 343--349) and a tax check (lines 372--380 and
  384--392): \<^verbatim>\<open>True\<close> when the snapshot is excluded. Each is a \<^verbatim>\<open>try\<close> block whose
  handler returns \<^verbatim>\<open>False\<close> from \<^verbatim>\<open>apply_filters\<close>.
\<close>

definition locked_lp_excluded :: "(string \<Rightarrow> rat option) \<Rightarrow> json \<Rightarrow> json \<Rightarrow> bool" where
  "locked_lp_excluded pf filter_locked_lp message_locked_lp =
     (case py_float pf filter_locked_lp of
        Inl e \<Rightarrow> True
      | Inr min_locked_percentage \<Rightarrow>
          (case py_less message_locked_lp min_locked_percentage of
             Inl e \<Rightarrow> True
           | Inr b \<Rightarrow> b))"

definition tax_excluded :: "(string \<Rightarrow> rat option) \<Rightarrow> json \<Rightarrow> json \<Rightarrow> bool" where
  "tax_excluded pf filter_tax message_tax =
     (case py_float pf filter_tax of
        Inl e \<Rightarrow> True
      | Inr filter_tax_value \<Rightarrow>
          if truthy message_tax then
            (case py_float_of_str pf message_tax of
               Inl e \<Rightarrow> True
             | Inr message_tax_value \<Rightarrow> message_tax_value > filter_tax_value)
          else False)"

text \<open>
  \<^verbatim>\<open>apply_filters\<close> (notification\_worker.py, lines 291--395). The reads at the top
  can raise; the checks follow in the source's order.
\<close>

definition apply_filters :: "(string \<Rightarrow> rat option) \<Rightarrow> pydict \<Rightarrow> pydict \<Rightarrow> error + bool" where
  "apply_filters pf filters message_data =
     (let filter_buy_tax = dict_get filters ''buy_tax'';
          filter_sell_tax = dict_get filters ''sell_tax''
      in ebind (py_lower (dict_get_default filters ''risk_level'' (JStr []))) (\<lambda>filter_risk_level.
      let filter_contract_verified = dict_get filters ''contract_verified''
      in ebind (py_lower (dict_get_default filters ''classification'' (JStr []))) (\<lambda>filter_classification.
         ebind (py_lower (dict_get_default filters ''alert_type'' (JStr []))) (\<lambda>filter_event_type.
      let filter_has_social = dict_get filters ''has_social'';
          filter_blockchain = dict_get_default filters ''blockchains'' (JList []);
          filter_locked_lp = dict_get filters ''locked_lp'';
          message_buy_tax = dict_get_default message_data ''buy_tax'' (JStr []);
          message_sell_tax = dict_get_default message_data ''sell_tax'' (JStr [])
      in ebind (py_lower (dict_get_default message_data ''risk_level'' (JStr []))) (\<lambda>message_risk_level.
      let message_contract_verified = dict_get_default message_data ''contract_verified'' (JBool False)
      in ebind (py_lower (dict_get_default message_data ''classification'' (JStr []))) (\<lambda>message_classification.
         ebind (py_lower (dict_get_default message_data ''event_type'' (JStr []))) (\<lambda>message_event_type.
      let message_socials = check_socials_exist message_data
      in ebind (chain_id_mapping_get (dict_get message_data ''chain_id'')) (\<lambda>message_blockchain.
      let message_locked_lp = dict_get_default message_data ''locked_lp'' (JNum 0)
      in ebind (blockchain_excluded filter_blockchain message_blockchain) (\<lambda>excluded.
         Inr (
           if excluded then False
           else if filter_has_social = JBool True \<and> \<not> message_socials then False
           else if filter_event_type \<noteq> ''all'' \<and>
                   ((filter_event_type = ''new tge'' \<and> message_event_type \<noteq> ''new_token'') \<or>
                    (filter_event_type = ''new dex listing'' \<and> message_event_type \<noteq> ''new_pair''))
                then False
           else if message_event_type \<noteq> ''new_token'' \<and> truthy filter_locked_lp \<and>
                   filter_event_type \<noteq> ''new tge'' \<and>
                   locked_lp_excluded pf filter_locked_lp message_locked_lp
                then False
           else if filter_classification \<noteq> ''all'' \<and>
                   (if filter_classification = ''exclude memecoins''
                    then message_classification = ''memecoins''
                    else filter_classification \<noteq> message_classification)
                then False
           else if filter_contract_verified = JBool True \<and> \<not> truthy message_contract_verified
                then False
           else if filter_risk_level \<noteq> [] \<and>
                   risk_level_mapping_get (capitalize message_risk_level) >
                   risk_level_mapping_get (capitalize filter_risk_level)
                then False
           else if truthy filter_buy_tax \<and> tax_excluded pf filter_buy_tax message_buy_tax
                then False
           else if truthy filter_sell_tax \<and> tax_excluded pf filter_sell_tax message_sell_tax
                then False
           else True))))))))))"

section \<open>Webhook gateway\<close>








text \<open>Reading a dynamically typed value: \<^verbatim>\<open>x.get(k)\<close>, \<^verbatim>\<open>x.get(k, d)\<close>, \<^verbatim>\<open>x[0]\<close>.\<close>

fun py_get :: "json \<Rightarrow> string \<Rightarrow> json \<Rightarrow> error + json" where
  "py_get (JDict d) k dflt = Inr (dict_get_default d k dflt)"
| "py_get _ k dflt = Inl AttributeError"





























section \<open>Stateful code: exceptions over the shared state\<close>

text \<open>
  A computation on the shared state returns a value or raises, and leaves a state either
  way: what was written before an exception stays written.
\<close>

type_synonym 'a io = "world \<Rightarrow> (error + 'a) \<times> world"

definition ret :: "'a \<Rightarrow> 'a io" where
  "ret x = (\<lambda>w. (Inr x, w))"

definition raise :: "error \<Rightarrow> 'a io" where
  "raise e = (\<lambda>w. (Inl e, w))"

definition lift :: "error + 'a \<Rightarrow> 'a io" where
  "lift r = (\<lambda>w. (r, w))"

definition bnd :: "'a io \<Rightarrow> ('a \<Rightarrow> 'b io) \<Rightarrow> 'b io" where
  "bnd m f = (\<lambda>w. case m w of (Inl e, w') \<Rightarrow> (Inl e, w') | (Inr x, w') \<Rightarrow> f x w')"

text \<open>\<^verbatim>\<open>try: m except Exception as e: h(e)\<close>.\<close>

definition try_except :: "'a io \<Rightarrow> (error \<Rightarrow> 'a io) \<Rightarrow> 'a io" where
  "try_except m h = (\<lambda>w. case m w of (Inl e, w') \<Rightarrow> h e w' | (Inr x, w') \<Rightarrow> (Inr x, w'))"

definition modify :: "(world \<Rightarrow> world) \<Rightarrow> unit io" where
  "modify f = (\<lambda>w. (Inr (), f w))"

section \<open>The relational store\<close>

text \<open>
  The store is used through its client: select, insert, update and upsert on a table,
  with equality filters. Every request first consults the fault script. The
  \<^verbatim>\<open>tokens\<close> table is unique on \<^verbatim>\<open>(address, blockchain)\<close>: an insert of a present key
  raises the error with code 23505. An upsert into a child table without an id makes a
  new row; its id is a fresh number, not zero (the schema's ids are UUIDs).
\<close>

definition store_request :: "unit io" where
  "store_request =
     (\<lambda>w. case store_faults w of
             [] \<Rightarrow> (Inr (), w)
           | f # fs \<Rightarrow> ((if f then Inl StoreError else Inr ()), w\<lparr>store_faults := fs\<rparr>))"

definition row_matches :: "(string \<times> json) list \<Rightarrow> pydict \<Rightarrow> bool" where
  "row_matches conds row = list_all (\<lambda>(k, v). dict_get row k = v) conds"

definition select_tokens :: "(string \<times> json) list \<Rightarrow> pydict list io" where
  "select_tokens conds =
     bnd store_request (\<lambda>u w. (Inr (filter (row_matches conds) (tokens w)), w))"

definition insert_tokens :: "pydict \<Rightarrow> pydict list io" where
  "insert_tokens row =
     bnd store_request (\<lambda>u w.
       if \<exists>r \<in> set (tokens w). dict_get r ''address'' = dict_get row ''address'' \<and>
                                dict_get r ''blockchain'' = dict_get row ''blockchain''
       then (Inl UniqueViolation, w)
       else (Inr [row], w\<lparr>tokens := tokens w @ [row]\<rparr>))"

definition update_tokens :: "pydict \<Rightarrow> (string \<times> json) list \<Rightarrow> pydict list io" where
  "update_tokens vals conds =
     bnd store_request (\<lambda>u w.
       (Inr (map (\<lambda>r. dict_update r vals) (filter (row_matches conds) (tokens w))),
        w\<lparr>tokens := map (\<lambda>r. if row_matches conds r then dict_update r vals else r) (tokens w)\<rparr>))"

datatype child_table = Source_code | Token_information | Gpl_audit

fun child_rows :: "child_table \<Rightarrow> world \<Rightarrow> pydict list" where
  "child_rows Source_code w = source_code w"
| "child_rows Token_information w = token_information w"
| "child_rows Gpl_audit w = gpl_audit w"

fun set_child_rows :: "child_table \<Rightarrow> pydict list \<Rightarrow> world \<Rightarrow> world" where
  "set_child_rows Source_code rows w = w\<lparr>source_code := rows\<rparr>"
| "set_child_rows Token_information rows w = w\<lparr>token_information := rows\<rparr>"
| "set_child_rows Gpl_audit rows w = w\<lparr>gpl_audit := rows\<rparr>"

definition fresh_id :: "world \<Rightarrow> json" where
  "fresh_id w = JNum (of_nat (Suc (next_id w)))"

definition child_upsert :: "child_table \<Rightarrow> pydict \<Rightarrow> pydict list io" where
  "child_upsert tbl vals =
     bnd store_request (\<lambda>u w.
       let row = dict_set vals ''id'' (fresh_id w)
       in (Inr [row], (set_child_rows tbl (child_rows tbl w @ [row]) w)\<lparr>next_id := Suc (next_id w)\<rparr>))"

definition child_update :: "child_table \<Rightarrow> pydict \<Rightarrow> json \<Rightarrow> pydict list io" where
  "child_update tbl vals rid =
     bnd store_request (\<lambda>u w.
       (Inr (map (\<lambda>r. dict_update r vals) (filter (\<lambda>r. dict_get r ''id'' = rid) (child_rows tbl w))),
        set_child_rows tbl
          (map (\<lambda>r. if dict_get r ''id'' = rid then dict_update r vals else r) (child_rows tbl w)) w))"

text \<open>\<^verbatim>\<open>result.data[0]['id']\<close> and \<^verbatim>\<open>result.data[0]['address']\<close>.\<close>

definition first_field :: "pydict list \<Rightarrow> string \<Rightarrow> error + json" where
  "first_field rows k =
     (case rows of
        [] \<Rightarrow> Inl IndexError
      | r # rs \<Rightarrow> (case map_of r k of None \<Rightarrow> Inl (KeyError k) | Some v \<Rightarrow> Inr v))"

text \<open>\<^verbatim>\<open>d.get(k) is None\<close>.\<close>

definition is_none :: "pydict \<Rightarrow> string \<Rightarrow> bool" where
  "is_none d k = (dict_get d k = JNull)"

text \<open>\<^verbatim>\<open>datetime.now(pytz.utc).isoformat()\<close>.\<close>

definition now_iso :: "json io" where
  "now_iso = (\<lambda>w. (Inr (JStr (utc_stamp w)), w))"

section \<open>Collaborators of the worker\<close>

text \<open>
  The helper modules the worker imports are not part of the sources. Each helper is a
  parameter; a network helper stands for its call through \<^verbatim>\<open>fetch_with_retry\<close>
  (processing\_worker.py, lines 67--83), whose outcome is the helper's value or the
  exception it ends with. \<^verbatim>\<open>float_of_text\<close> is Python's \<^verbatim>\<open>float\<close> on a string.
\<close>

record collab =
  convert_chain_id_to_blockchain :: "json \<Rightarrow> error + json"
  initialize_infura_web3_object :: "json \<Rightarrow> error + unit"
  web3_to_checksum_address :: "json \<Rightarrow> error + json"
  get_eth_contract_info :: "json \<Rightarrow> error + json"
  get_contract_source_code :: "json \<Rightarrow> error + json"
  get_token_socials :: "json \<Rightarrow> error + json"
  get_eth_token_security_info :: "json \<Rightarrow> json \<Rightarrow> string \<Rightarrow> error + json"
  get_token_classification :: "json \<Rightarrow> json \<Rightarrow> error + json \<times> json"
  float_of_text :: "string \<Rightarrow> rat option"

text \<open>\<^verbatim>\<open>d[k]\<close>, \<^verbatim>\<open>d.update(x)\<close> for a value \<^verbatim>\<open>x\<close>, and \<^verbatim>\<open>x or {}\<close>.\<close>

definition dict_index :: "pydict \<Rightarrow> string \<Rightarrow> error + json" where
  "dict_index d k = (case map_of d k of None \<Rightarrow> Inl (KeyError k) | Some v \<Rightarrow> Inr v)"

fun py_update :: "pydict \<Rightarrow> json \<Rightarrow> error + pydict" where
  "py_update d (JDict e) = Inr (dict_update d e)"
| "py_update d _ = Inl TypeError"

definition or_empty :: "json \<Rightarrow> json" where
  "or_empty x = (if truthy x then x else JDict [])"

text \<open>A dict literal whose values are \<^verbatim>\<open>token_data.get(key)\<close>.\<close>

definition pick :: "pydict \<Rightarrow> (string \<times> string) list \<Rightarrow> pydict" where
  "pick token_data ks = map (\<lambda>(column, key). (column, dict_get token_data key)) ks"

section \<open>Persistence routines\<close>

text \<open>\<^verbatim>\<open>is_token_renounced\<close> (processing\_worker.py, lines 1063--1087).\<close>

definition is_token_renounced :: "collab \<Rightarrow> json \<Rightarrow> json \<Rightarrow> bool io" where
  "is_token_renounced c addr cid =
     try_except
       (bnd (lift (convert_chain_id_to_blockchain c cid)) (\<lambda>blockchain.
        bnd (lift (web3_to_checksum_address c addr)) (\<lambda>checksummed_address.
        bnd (select_tokens [(''address'', checksummed_address), (''blockchain'', blockchain)]) (\<lambda>rows.
          ret (case rows of [] \<Rightarrow> False | r # rs \<Rightarrow> truthy (dict_get r ''is_renounced''))))))
       (\<lambda>e. ret False)"

text \<open>
  The blocks that \<^verbatim>\<open>store_new_token_in_supabase\<close> (lines 675--761) and
  \<^verbatim>\<open>store_new_pair_data_in_supabase\<close> (lines 863--947) have in common: the ids of an
  existing token row are copied (lines 678--686, 866--872), then a source-code row is
  made when there is none, the social and audit rows are updated when their id is known
  and made otherwise, and the token row is inserted, or updated on a key conflict.
\<close>

definition copy_existing_ids :: "pydict \<Rightarrow> pydict list \<Rightarrow> pydict" where
  "copy_existing_ids std rows =
     (case rows of
        [] \<Rightarrow> std
      | existing # rest \<Rightarrow>
          foldl (\<lambda>s k. if truthy (dict_get existing k) then dict_set s k (dict_get existing k) else s)
            std [''source_code_id'', ''gpl_audit_id'', ''token_information_id''])"

definition link_new_row :: "pydict \<Rightarrow> string \<Rightarrow> pydict list \<Rightarrow> pydict io" where
  "link_new_row std k rows =
     (if rows \<noteq> [] then bnd (lift (first_field rows ''id'')) (\<lambda>i. ret (dict_set std k i))
      else ret std)"

definition store_source_code :: "pydict \<Rightarrow> pydict \<Rightarrow> pydict io" where
  "store_source_code token_data std =
     (if truthy (dict_get std ''contract_verified'') \<and> is_none std ''source_code_id'' then
        bnd (child_upsert Source_code [(''code'', dict_get token_data ''source_code'')])
          (link_new_row std ''source_code_id'')
      else ret std)"

definition socials_row :: "pydict \<Rightarrow> pydict" where
  "socials_row token_data =
     pick token_data [(''website'', ''website''), (''twitter'', ''twitter''),
                      (''telegram'', ''telegram''), (''discord'', ''discord'')]"

definition audit_row :: "pydict \<Rightarrow> pydict" where
  "audit_row token_data =
     pick token_data [(''detailed_audit_results'', ''detailed_audit''), (''raw_results'', ''raw_results'')]"

definition store_socials :: "pydict \<Rightarrow> pydict \<Rightarrow> pydict io" where
  "store_socials token_data std =
     (if check_socials_exist token_data then
        (if truthy (dict_get std ''token_information_id'') then
           bnd now_iso (\<lambda>ts.
           bnd (child_update Token_information (dict_set (socials_row token_data) ''updated_at'' ts)
                  (dict_get std ''token_information_id'')) (\<lambda>rows. ret std))
         else bnd (child_upsert Token_information (socials_row token_data))
                (link_new_row std ''token_information_id''))
      else ret std)"

definition store_audit :: "pydict \<Rightarrow> pydict \<Rightarrow> pydict io" where
  "store_audit token_data std =
     (if truthy (dict_get token_data ''raw_results'') then
        (if truthy (dict_get std ''gpl_audit_id'') then
           bnd now_iso (\<lambda>ts.
           bnd (child_update Gpl_audit (dict_set (audit_row token_data) ''updated_at'' ts)
                  (dict_get std ''gpl_audit_id'')) (\<lambda>rows. ret std))
         else bnd (child_upsert Gpl_audit (audit_row token_data)) (link_new_row std ''gpl_audit_id''))
      else ret std)"

definition returned_address :: "pydict list \<Rightarrow> json io" where
  "returned_address rows = (if rows = [] then ret JNull else lift (first_field rows ''address''))"

definition insert_token :: "pydict \<Rightarrow> json \<Rightarrow> json \<Rightarrow> json io" where
  "insert_token std addr blockchain =
     try_except (bnd (insert_tokens std) returned_address)
       (\<lambda>e. if e = UniqueViolation then
               bnd now_iso (\<lambda>ts.
               bnd (update_tokens (dict_set std ''updated_at'' ts)
                      [(''address'', addr), (''blockchain'', blockchain)]) returned_address)
             else raise e)"

definition store_token_rows :: "pydict \<Rightarrow> pydict \<Rightarrow> json io" where
  "store_token_rows token_data std =
     try_except
       (let addr = dict_get std ''address''; blockchain = dict_get std ''blockchain''
        in if \<not> truthy addr \<or> \<not> truthy blockchain then ret JNull
           else bnd (select_tokens [(''address'', addr), (''blockchain'', blockchain)]) (\<lambda>existing.
                bnd (store_source_code token_data (copy_existing_ids std existing)) (\<lambda>std1.
                bnd (store_socials token_data std1) (\<lambda>std2.
                bnd (store_audit token_data std2) (\<lambda>std3.
                  insert_token std3 addr blockchain)))))
       (\<lambda>e. ret JNull)"

text \<open>
  \<^verbatim>\<open>store_new_token_in_supabase\<close> (lines 645--765). It returns the stored address or
  \<^verbatim>\<open>None\<close> and never raises.
\<close>

definition store_new_token_in_supabase :: "pydict \<Rightarrow> json io" where
  "store_new_token_in_supabase token_data =
     store_token_rows token_data
       (pick token_data
          [(''address'', ''address''), (''blockchain'', ''blockchain''),
           (''block_number'', ''block_number''), (''name'', ''name''), (''symbol'', ''symbol''),
           (''classification'', ''classification''),
           (''classification_certainty'', ''classification_certainty''),
           (''contract_verified'', ''contract_verified''),
           (''creator_address'', ''creator_address''), (''creator_percent'', ''creator_percent''),
           (''risk_level'', ''risk_level''), (''is_scam'', ''is_scam''),
           (''buy_tax'', ''buy_tax''), (''sell_tax'', ''sell_tax''),
           (''creator_security'', ''creator_security'')])"

text \<open>
  The renounced flag is sticky (lines 829--830 and 955--957): the routine writes it
  into the caller's \<^verbatim>\<open>token_data\<close>, so the model returns the dict as well.
\<close>

definition keep_renounced :: "collab \<Rightarrow> pydict \<Rightarrow> pydict io" where
  "keep_renounced c token_data =
     bnd (lift (dict_index token_data ''address'')) (\<lambda>addr.
     bnd (lift (dict_index token_data ''chain_id'')) (\<lambda>cid.
     bnd (is_token_renounced c addr cid) (\<lambda>renounced.
       ret (if renounced then dict_set token_data ''is_renounced'' (JBool True) else token_data))))"

text \<open>\<^verbatim>\<open>store_new_pair_data_in_supabase\<close> (lines 825--951).\<close>

definition store_new_pair_data_in_supabase :: "collab \<Rightarrow> pydict \<Rightarrow> (json \<times> pydict) io" where
  "store_new_pair_data_in_supabase c token_data0 =
     bnd (keep_renounced c token_data0) (\<lambda>token_data.
       let std0 = pick token_data
             [(''address'', ''address''), (''blockchain'', ''blockchain''),
              (''block_number'', ''block_number''), (''name'', ''name''), (''symbol'', ''symbol''),
              (''classification'', ''classification''),
              (''classification_certainty'', ''classification_certainty''),
              (''contract_verified'', ''contract_verified''),
              (''creator_address'', ''creator_address''), (''creator_percent'', ''creator_percent''),
              (''risk_level'', ''risk_level''), (''buy_tax'', ''buy_tax''),
              (''sell_tax'', ''sell_tax''), (''dex_pair'', ''dex_pair''),
              (''is_renounced'', ''is_renounced''), (''liquidity_locked'', ''locked_lp''),
              (''creator_security'', ''creator_security'')];
           std = (if truthy (dict_get token_data ''is_scam'')
                  then dict_set std0 ''is_scam'' (dict_get token_data ''is_scam'') else std0)
       in bnd (store_token_rows token_data std) (\<lambda>r. ret (r, token_data)))"

text \<open>
  \<^verbatim>\<open>update_pair_data_in_supabase\<close> (lines 953--1038). It is not wrapped in a
  \<^verbatim>\<open>try\<close>: a failed request raises to the caller. Line 1020 tests the key
  \<^verbatim>\<open>gpl_audit_results\<close> of the dict built in lines 959--978.
\<close>

definition update_pair_data_in_supabase ::
  "collab \<Rightarrow> pydict \<Rightarrow> json \<Rightarrow> json \<Rightarrow> json \<Rightarrow> (json \<times> pydict) io" where
  "update_pair_data_in_supabase c token_data0 source_code_id gpl_audit_id token_information_id =
     bnd (keep_renounced c token_data0) (\<lambda>token_data.
     bnd now_iso (\<lambda>ts.
       let std0 = pick token_data
             [(''block_number'', ''block_number''), (''contract_verified'', ''contract_verified''),
              (''creator_percent'', ''creator_percent''), (''risk_level'', ''risk_level''),
              (''is_scam'', ''is_scam''), (''buy_tax'', ''buy_tax''), (''sell_tax'', ''sell_tax''),
              (''dex_pair'', ''dex_pair''), (''is_renounced'', ''is_renounced''),
              (''liquidity_locked'', ''locked_lp'')] @ [(''updated_at'', ts)];
           std1 = (if truthy source_code_id then dict_set std0 ''source_code_id'' source_code_id else std0);
           std2 = (if truthy gpl_audit_id then dict_set std1 ''gpl_audit_id'' gpl_audit_id else std1);
           std3 = (if truthy token_information_id
                   then dict_set std2 ''token_information_id'' token_information_id else std2);
           addr = dict_get token_data ''address''
       in bnd (lift (convert_chain_id_to_blockchain c (dict_get token_data ''chain_id''))) (\<lambda>blockchain.
          if \<not> truthy addr \<or> \<not> truthy blockchain then ret (JNull, token_data)
          else
            bnd (if \<not> truthy source_code_id \<and> truthy (dict_get token_data ''contract_verified'')
                 then bnd (child_upsert Source_code [(''code'', dict_get token_data ''source_code'')])
                        (link_new_row std3 ''source_code_id'')
                 else ret std3) (\<lambda>std4.
            bnd (if \<not> truthy token_information_id \<and> check_socials_exist token_data
                 then bnd (child_upsert Token_information (socials_row token_data))
                        (link_new_row std4 ''token_information_id'')
                 else ret std4) (\<lambda>std5.
            bnd (if truthy (dict_get token_data ''raw_results'') then
                   (if truthy (dict_get std5 ''gpl_audit_results'') then
                      bnd now_iso (\<lambda>ts2.
                      bnd (lift (dict_index std5 ''gpl_audit_id'')) (\<lambda>aid.
                      bnd (child_update Gpl_audit (dict_set (audit_row token_data) ''updated_at'' ts2) aid)
                        (\<lambda>rows. ret std5)))
                    else bnd (child_upsert Gpl_audit (audit_row token_data))
                           (link_new_row std5 ''gpl_audit_id''))
                 else ret std5) (\<lambda>std6.
            bnd now_iso (\<lambda>ts3.
            bnd (update_tokens (dict_set std6 ''updated_at'' ts3)
                   [(''address'', addr), (''blockchain'', blockchain)]) (\<lambda>rows.
            bnd (lift (first_field rows ''address'')) (\<lambda>a. ret (a, token_data))))))))))"

text \<open>\<^verbatim>\<open>update_renounced_status_in_supabase\<close> (lines 1040--1061).\<close>

definition update_renounced_status_in_supabase :: "collab \<Rightarrow> json \<Rightarrow> json \<Rightarrow> json io" where
  "update_renounced_status_in_supabase c token_addr cid =
     bnd (lift (convert_chain_id_to_blockchain c cid)) (\<lambda>blockchain.
     bnd (lift (web3_to_checksum_address c token_addr)) (\<lambda>addr.
     bnd now_iso (\<lambda>ts.
     bnd (update_tokens [(''is_renounced'', JBool True), (''updated_at'', ts)]
            [(''address'', addr), (''blockchain'', blockchain)]) (\<lambda>rows.
       if rows \<noteq> [] then lift (first_field rows ''address'') else ret JNull))))"

text \<open>\<^verbatim>\<open>increment_firestore_counter\<close> (lines 622--643).\<close>

definition increment_firestore_counter :: "pydict \<Rightarrow> unit io" where
  "increment_firestore_counter token_data =
     modify (\<lambda>w.
       let w1 = w\<lparr>total_counter := Suc (total_counter w)\<rparr>
       in if dict_get token_data ''risk_level'' = JStr ''High''
          then w1\<lparr>scams_counter := Suc (scams_counter w1)\<rparr>
          else if dict_get token_data ''risk_level'' = JStr ''Medium''
          then w1\<lparr>risky_counter := Suc (risky_counter w1)\<rparr>
          else w1)"

section \<open>Enrichment pipeline\<close>

text \<open>\<^verbatim>\<open>is_ownership_renounced\<close> (lines 773--780).\<close>

definition is_ownership_renounced :: "json \<Rightarrow> bool" where
  "is_ownership_renounced owner_address =
     (case py_lower owner_address of
        Inl e \<Rightarrow> False
      | Inr s \<Rightarrow> s = ''0x0000000000000000000000000000000000000000'')"

text \<open>
  \<^verbatim>\<open>sum_locked_lp_percent\<close> (lines 782--823). \<^verbatim>\<open>== 1\<close> holds for the number 1 and
  for \<^verbatim>\<open>True\<close>. The inner \<^verbatim>\<open>try\<close> catches the errors of \<^verbatim>\<open>float\<close>; any other
  exception gives 0.
\<close>

fun locked_sum :: "(string \<Rightarrow> rat option) \<Rightarrow> json list \<Rightarrow> error + rat" where
  "locked_sum pf [] = Inr 0"
| "locked_sum pf (holder # holders) =
     ebind (py_get holder ''is_locked'' JNull) (\<lambda>l.
       if l = JNum 1 \<or> l = JBool True then
         ebind (py_get holder ''percent'' (JNum 0)) (\<lambda>p.
         ebind (py_float pf p) (\<lambda>percent.
         ebind (locked_sum pf holders) (\<lambda>s. Inr (percent + s))))
       else locked_sum pf holders)"

definition sum_locked_lp_percent :: "(string \<Rightarrow> rat option) \<Rightarrow> json \<Rightarrow> json \<Rightarrow> json" where
  "sum_locked_lp_percent pf raw_results transformed =
     (case
        ebind (if truthy raw_results then py_get raw_results ''lp_holders'' (JList [])
               else Inr (JList [])) (\<lambda>lp_holders.
        ebind (if truthy lp_holders
               then ebind (py_iter lp_holders) (\<lambda>hs. ebind (locked_sum pf hs) (\<lambda>s. Inr (s * 100)))
               else Inr 0) (\<lambda>method_1_percent.
        ebind (if truthy transformed \<and> truthy raw_results then
                 ebind (py_get transformed ''amount'' JNull) (\<lambda>lock_amount.
                 ebind (py_get raw_results ''lp_total_supply'' JNull) (\<lambda>total_supply.
                   if truthy lock_amount \<and> truthy total_supply then
                     (case py_float pf lock_amount of
                        Inl e \<Rightarrow> Inr 0
                      | Inr la \<Rightarrow>
                          (case py_float pf total_supply of
                             Inl e \<Rightarrow> Inr 0
                           | Inr ts \<Rightarrow> Inr (if ts > 0 then la / ts * 100 else 0)))
                   else Inr 0))
               else Inr 0) (\<lambda>method_2_percent.
          Inr (max method_1_percent method_2_percent))))
      of Inl e \<Rightarrow> JNum 0 | Inr r \<Rightarrow> JNum r)"

text \<open>
  The enrichment steps. Each is a \<^verbatim>\<open>try\<close> block that only logs (or clears the
  verified flag) on an exception, so it is a function on \<^verbatim>\<open>token_data\<close>; what the
  block wrote before the exception stays.
  \<^item> \<^verbatim>\<open>refresh_source_code\<close>: lines 131--141, 254--263, 319--328, 453--462;
  \<^item> \<^verbatim>\<open>security_new_token\<close>: lines 144--153; \<^verbatim>\<open>classify\<close>: lines 156--164;
  \<^item> \<^verbatim>\<open>audit_existing\<close>: lines 266--286 and 465--487;
  \<^item> \<^verbatim>\<open>audit_fresh\<close>: lines 331--358.
\<close>

definition refresh_source_code :: "collab \<Rightarrow> json \<Rightarrow> pydict \<Rightarrow> pydict" where
  "refresh_source_code c addr token_data =
     (case ebind (get_contract_source_code c addr) (\<lambda>info. py_update token_data (or_empty info)) of
        Inl e \<Rightarrow> dict_set token_data ''contract_verified'' (JBool False)
      | Inr td1 \<Rightarrow>
          if truthy (dict_get td1 ''contract_verified'') \<and> truthy (dict_get td1 ''source_code'') then
            (case ebind (dict_index td1 ''source_code'') (\<lambda>src.
                  ebind (get_token_socials c src) (py_update td1)) of
               Inl e \<Rightarrow> dict_set td1 ''contract_verified'' (JBool False)
             | Inr td2 \<Rightarrow> td2)
          else td1)"

definition security_new_token :: "collab \<Rightarrow> json \<Rightarrow> pydict \<Rightarrow> pydict" where
  "security_new_token c addr token_data =
     (case ebind (get_eth_token_security_info c addr
                    (dict_get_default token_data ''contract_verified'' (JBool False)) ''new_token'')
             (py_update token_data) of
        Inl e \<Rightarrow> token_data
      | Inr td1 \<Rightarrow> td1)"

definition classify :: "collab \<Rightarrow> pydict \<Rightarrow> error + pydict" where
  "classify c token_data =
     ebind (dict_index token_data ''name'') (\<lambda>n.
     ebind (dict_index token_data ''symbol'') (\<lambda>s.
     ebind (get_token_classification c n s) (\<lambda>(classification, certainty).
       Inr (dict_set (dict_set token_data ''classification'' classification)
              ''classification_certainty'' certainty))))"

definition classify_new_token :: "collab \<Rightarrow> pydict \<Rightarrow> pydict" where
  "classify_new_token c token_data =
     (case classify c token_data of Inl e \<Rightarrow> token_data | Inr td1 \<Rightarrow> td1)"

definition audit_existing :: "collab \<Rightarrow> string \<Rightarrow> json \<Rightarrow> pydict \<Rightarrow> pydict" where
  "audit_existing c kind transformed token_data =
     (case ebind (dict_index token_data ''address'') (\<lambda>addr.
           ebind (get_eth_token_security_info c addr
                    (dict_get_default token_data ''contract_verified'' (JBool False)) kind) (\<lambda>info.
             py_update token_data (or_empty info))) of
        Inl e \<Rightarrow> token_data
      | Inr td1 \<Rightarrow>
          (case ebind (dict_index td1 ''raw_results'') (\<lambda>rr. py_get rr ''owner_address'' JNull) of
             Inl e \<Rightarrow> td1
           | Inr owner \<Rightarrow>
               (let td2 = dict_set td1 ''is_renounced'' (JBool (is_ownership_renounced owner))
                in dict_set td2 ''locked_lp''
                     (sum_locked_lp_percent (float_of_text c) (dict_get td2 ''raw_results'') transformed))))"

definition audit_fresh :: "collab \<Rightarrow> pydict \<Rightarrow> pydict" where
  "audit_fresh c token_data =
     (case ebind (dict_index token_data ''address'') (\<lambda>addr.
             get_eth_token_security_info c addr
               (dict_get_default token_data ''contract_verified'' (JBool False)) ''new_pair'') of
        Inl e \<Rightarrow> token_data
      | Inr security_info \<Rightarrow>
          (case py_update token_data security_info of
             Inl e \<Rightarrow> token_data
           | Inr td1 \<Rightarrow>
               (case classify c td1 of
                  Inl e \<Rightarrow> td1
                | Inr td2 \<Rightarrow>
                    (case py_get security_info ''raw_results'' JNull of
                       Inl e \<Rightarrow> td2
                     | Inr rr \<Rightarrow>
                         if truthy security_info \<and> truthy rr then
                           (case py_get rr ''owner_address'' JNull of
                              Inl e \<Rightarrow> td2
                            | Inr owner_address \<Rightarrow>
                                (let td3 = dict_set td2 ''is_renounced''
                                       (JBool (if truthy owner_address
                                               then is_ownership_renounced owner_address else False))
                                 in dict_set td3 ''locked_lp''
                                      (sum_locked_lp_percent (float_of_text c) rr JNull)))
                         else td2))))"

text \<open>
  The two effects a job can end with: the failure path of the retry contract
  (\<^verbatim>\<open>self.handle_failed_event(event_data, ...)\<close> followed by \<^verbatim>\<open>return False\<close>), and the
  push onto the notification queue (lines 192--196, 388--392, 510--514) followed by
  \<^verbatim>\<open>return True\<close>.
\<close>

definition handle_failure :: "settings \<Rightarrow> event_data \<Rightarrow> string \<Rightarrow> bool io" where
  "handle_failure cfg ev msg = (\<lambda>w. (Inr False, snd (handle_failed_event cfg ev msg w)))"

definition notify :: "string \<Rightarrow> pydict \<Rightarrow> bool io" where
  "notify kind token_data =
     (\<lambda>w. (Inr True,
            if \<not> truthy (dict_get token_data ''is_scam'')
            then w\<lparr>notification_queue := notification_queue w @ [(kind, token_data)]\<rparr> else w))"

text \<open>\<^verbatim>\<open>event_data[key]\<close> for a key that not every job has.\<close>

definition job_key :: "string \<Rightarrow> json option \<Rightarrow> error + json" where
  "job_key k v = (case v of None \<Rightarrow> Inl (KeyError k) | Some x \<Rightarrow> Inr x)"

text \<open>\<^verbatim>\<open>process_new_token\<close> (lines 101--203).\<close>

definition process_new_token :: "settings \<Rightarrow> collab \<Rightarrow> event_data \<Rightarrow> bool io" where
  "process_new_token cfg c ev =
     try_except
       (let td0 = [(''chain_id'', chain_id ev), (''block_number'', block_number ev),
                   (''event_type'', JStr ''new_token''), (''event_id'', event_id ev)]
        in bnd (lift (convert_chain_id_to_blockchain c (chain_id ev))) (\<lambda>blockchain.
           bnd (lift (initialize_infura_web3_object c blockchain)) (\<lambda>web3.
           bnd (lift (ebind (job_key ''address'' (address ev)) (web3_to_checksum_address c))) (\<lambda>addr.
           let td1 = dict_set (dict_set td0 ''blockchain'' blockchain) ''address'' addr
           in bnd (lift (get_eth_contract_info c addr)) (\<lambda>basic_info.
              if \<not> truthy basic_info then ret True
              else bnd (lift (py_update td1 basic_info)) (\<lambda>td2.
                   let token_data = classify_new_token c
                         (security_new_token c addr (refresh_source_code c addr td2))
                   in bnd (increment_firestore_counter token_data) (\<lambda>u w.
                        case store_new_token_in_supabase token_data w of
                          (Inl e, w') \<Rightarrow> handle_failure cfg ev (str_of_error e) w'
                        | (Inr supabase_result, w') \<Rightarrow> notify ''new_token'' token_data w')))))))
       (\<lambda>e. handle_failure cfg ev (str_of_error e))"

text \<open>
  The two storage blocks of \<^verbatim>\<open>process_new_pair\<close> and \<^verbatim>\<open>process_lock_lp\<close>. A block
  either leaves the function with \<^verbatim>\<open>return False\<close> after the failure path (\<^verbatim>\<open>Inl\<close>),
  or goes on with the \<^verbatim>\<open>token_data\<close> it wrote (\<^verbatim>\<open>Inr\<close>).
  \<^item> \<^verbatim>\<open>update_existing\<close>: lines 289--306 and 490--507;
  \<^item> \<^verbatim>\<open>store_fresh\<close>: lines 361--385.
\<close>

definition update_existing ::
  "settings \<Rightarrow> collab \<Rightarrow> event_data \<Rightarrow> pydict \<Rightarrow> pydict \<Rightarrow> (bool + pydict) io" where
  "update_existing cfg c ev existing_data token_data =
     try_except
       (bnd (update_pair_data_in_supabase c token_data
               (dict_get existing_data ''source_code_id'') (dict_get existing_data ''gpl_audit_id'')
               (dict_get existing_data ''token_information_id'')) (\<lambda>(supabase_result, td).
          if \<not> truthy supabase_result
          then bnd (handle_failure cfg ev ''Failed to update pair data'') (\<lambda>b. ret (Inl b))
          else ret (Inr td)))
       (\<lambda>e. bnd (handle_failure cfg ev (str_of_error e)) (\<lambda>b. ret (Inl b)))"

definition store_fresh ::
  "settings \<Rightarrow> collab \<Rightarrow> event_data \<Rightarrow> pydict \<Rightarrow> (bool + pydict) io" where
  "store_fresh cfg c ev token_data =
     try_except
       (bnd (increment_firestore_counter token_data) (\<lambda>u.
        bnd (store_new_pair_data_in_supabase c token_data) (\<lambda>(supabase_result, td).
          if \<not> truthy supabase_result then raise (Failure ''Failed to store new pair data'')
          else ret (Inr td))))
       (\<lambda>e. bnd (handle_failure cfg ev (str_of_error e)) (\<lambda>b. ret (Inl b)))"

definition hydrate :: "pydict \<Rightarrow> pydict" where
  "hydrate existing_data =
     pick existing_data [(''name'', ''name''), (''symbol'', ''symbol''),
       (''classification'', ''classification''),
       (''classification_certainty'', ''classification_certainty''),
       (''contract_verified'', ''contract_verified'')]"

text \<open>
  After a storage block: leave with its \<^verbatim>\<open>return\<close> value, or queue the notification
  (lines 387--394 and 509--516) and return \<^verbatim>\<open>True\<close>.
\<close>

definition finish :: "string \<Rightarrow> (bool + pydict) io \<Rightarrow> bool io" where
  "finish kind m =
     bnd m (\<lambda>r. case r of Inl b \<Rightarrow> ret b | Inr token_data \<Rightarrow> notify kind token_data)"

text \<open>\<^verbatim>\<open>process_new_pair\<close> (lines 205--398).\<close>

definition process_new_pair :: "settings \<Rightarrow> collab \<Rightarrow> event_data \<Rightarrow> bool io" where
  "process_new_pair cfg c ev =
     try_except
       (bnd (lift (job_key ''pair_address'' (pair_address ev))) (\<lambda>pair.
        let td0 = [(''chain_id'', chain_id ev), (''block_number'', block_number ev),
                   (''event_type'', JStr ''new_pair''), (''event_id'', event_id ev),
                   (''dex_pair'', pair)]
        in bnd (lift (convert_chain_id_to_blockchain c (chain_id ev))) (\<lambda>blockchain.
           bnd (lift (initialize_infura_web3_object c blockchain)) (\<lambda>web3.
           bnd (lift (ebind (job_key ''token_address'' (token_address ev)) (web3_to_checksum_address c))) (\<lambda>addr.
           let td1 = dict_set (dict_set td0 ''blockchain'' blockchain) ''address'' addr
           in bnd (select_tokens [(''address'', addr), (''blockchain'', blockchain)]) (\<lambda>existing_token.
              case existing_token of
                existing_data # rest \<Rightarrow>
                  if truthy (dict_get existing_data ''is_scam'') then ret True
                  else
                    (let td2 = dict_update td1 (hydrate existing_data);
                         td3 = (if \<not> truthy (dict_get existing_data ''source_code_id'')
                                then refresh_source_code c addr td2 else td2);
                         td4 = audit_existing c ''new_pair'' JNull td3
                     in finish ''new_pair'' (update_existing cfg c ev existing_data td4))
              | [] \<Rightarrow>
                  bnd (lift (get_eth_contract_info c addr)) (\<lambda>basic_info.
                    if \<not> truthy basic_info then ret True
                    else bnd (lift (py_update td1 basic_info)) (\<lambda>td2.
                         let td3 = audit_fresh c (refresh_source_code c addr td2)
                         in finish ''new_pair'' (store_fresh cfg c ev td3)))))))))
       (\<lambda>e. handle_failure cfg ev (str_of_error e))"

text \<open>\<^verbatim>\<open>process_lock_lp\<close> (lines 400--521).\<close>

definition process_lock_lp :: "settings \<Rightarrow> collab \<Rightarrow> event_data \<Rightarrow> bool io" where
  "process_lock_lp cfg c ev =
     try_except
       (let transformed = (case transformed_data ev of None \<Rightarrow> JDict [] | Some t \<Rightarrow> t)
        in bnd (lift (py_get transformed ''lp_token'' JNull)) (\<lambda>lp_token.
           if \<not> truthy lp_token then ret False
           else
             bnd (lift (convert_chain_id_to_blockchain c (chain_id ev))) (\<lambda>blockchain.
             bnd (select_tokens [(''dex_pair'', lp_token), (''blockchain'', blockchain)]) (\<lambda>existing_token.
               case existing_token of
                 [] \<Rightarrow> ret True
               | existing_data # rest \<Rightarrow>
                   if truthy (dict_get existing_data ''is_scam'') then ret True
                   else
                     (let td0 = [(''chain_id'', chain_id ev), (''block_number'', block_number ev),
                                 (''event_type'', JStr ''lock_lp''), (''event_id'', event_id ev),
                                 (''dex_pair'', lp_token), (''blockchain'', blockchain),
                                 (''address'', dict_get existing_data ''address'')] @
                                hydrate existing_data;
                          td1 = (if \<not> truthy (dict_get existing_data ''source_code_id'')
                                 then refresh_source_code c (dict_get td0 ''address'') td0 else td0);
                          td2 = audit_existing c ''lock_lp''
                                  (case transformed_data ev of None \<Rightarrow> JNull | Some t \<Rightarrow> t) td1
                      in finish ''lock_lp'' (update_existing cfg c ev existing_data td2))))))
       (\<lambda>e. handle_failure cfg ev (str_of_error e))"

text \<open>\<^verbatim>\<open>process_ownership_renounced\<close> (lines 558--591).\<close>

definition process_ownership_renounced :: "settings \<Rightarrow> collab \<Rightarrow> event_data \<Rightarrow> bool io" where
  "process_ownership_renounced cfg c ev =
     try_except
       (bnd (lift (job_key ''token_address'' (token_address ev))) (\<lambda>token_addr.
          try_except
            (bnd (update_renounced_status_in_supabase c token_addr (chain_id ev)) (\<lambda>result.
               if \<not> truthy result then ret True else ret True))
            (\<lambda>e. handle_failure cfg ev (str_of_error e))))
       (\<lambda>e. handle_failure cfg ev (str_of_error e))"

text \<open>\<^verbatim>\<open>TokenProcessor.process_webhook\<close> (lines 523--543).\<close>

definition process_webhook :: "settings \<Rightarrow> collab \<Rightarrow> event_data \<Rightarrow> bool io" where
  "process_webhook cfg c ev =
     try_except
       (if event_type ev = ''new_token'' then process_new_token cfg c ev
        else if event_type ev = ''new_pair'' then process_new_pair cfg c ev
        else if event_type ev = ''lock_lp'' then process_lock_lp cfg c ev
        else if event_type ev = ''ownership_renounced'' then process_ownership_renounced cfg c ev
        else ret False)
       (\<lambda>e. handle_failure cfg ev (str_of_error e))"

text \<open>
  \<^verbatim>\<open>redis.zrangebyscore(key, 0, now)\<close>: the members whose score lies in the range, by
  rising score (members of equal score in the order they were added; Redis orders them
  by their text). \<^verbatim>\<open>redis.zremrangebyscore(key, 0, now)\<close> removes that range.
\<close>

definition zrangebyscore :: "('a \<times> rat) list \<Rightarrow> rat \<Rightarrow> rat \<Rightarrow> 'a list" where
  "zrangebyscore q lo hi = map fst (sort_key snd (filter (\<lambda>(m, s). lo \<le> s \<and> s \<le> hi) q))"

definition zremrangebyscore :: "('a \<times> rat) list \<Rightarrow> rat \<Rightarrow> rat \<Rightarrow> ('a \<times> rat) list" where
  "zremrangebyscore q lo hi = filter (\<lambda>(m, s). \<not> (lo \<le> s \<and> s \<le> hi)) q"

text \<open>
  \<^verbatim>\<open>process_retry_queue\<close> (lines 545--556): the loop hands every ready job to
  \<^verbatim>\<open>process_webhook\<close> and drops its result.
\<close>

fun retry_each :: "settings \<Rightarrow> collab \<Rightarrow> event_data list \<Rightarrow> unit io" where
  "retry_each cfg c [] = ret ()"
| "retry_each cfg c (ev # evs) = bnd (process_webhook cfg c ev) (\<lambda>b. retry_each cfg c evs)"

definition process_retry_queue :: "settings \<Rightarrow> collab \<Rightarrow> unit io" where
  "process_retry_queue cfg c =
     (\<lambda>w. let now = clock w;
              ready_events = zrangebyscore (retry_queue w) 0 now
          in if ready_events \<noteq> []
             then retry_each cfg c ready_events
                    (w\<lparr>retry_queue := zremrangebyscore (retry_queue w) 0 now\<rparr>)
             else (Inr (), w))"

text \<open>
  One round of the loop of \<^verbatim>\<open>start_worker\<close> (lines 599--616): the retry step, then
  the pop of \<^verbatim>\<open>webhook_queue\<close> (which blocks on an empty queue: the round ends there),
  then the job. An exception is logged by line 613.
\<close>

definition worker_round :: "settings \<Rightarrow> collab \<Rightarrow> world \<Rightarrow> world" where
  "worker_round cfg c w =
     (case process_retry_queue cfg c w of
        (Inl e, w1) \<Rightarrow> w1
      | (Inr u, w1) \<Rightarrow>
          (case webhook_queue w1 of
             [] \<Rightarrow> w1
           | ev # rest \<Rightarrow> snd (process_webhook cfg c ev (w1\<lparr>webhook_queue := rest\<rparr>))))"






section \<open>Example data\<close>

text \<open>A configuration, a job as the gateway queues it, and an empty state.\<close>

definition cfg3 :: settings where
  "cfg3 = \<lparr>MAX_RETRIES = 3, RETRY_DELAY = 60\<rparr>"

definition job0 :: event_data where
  "job0 = \<lparr>event_id = JStr ''1'', event_type = ''new_token'', chain_id = JStr ''0x1'', block_number = JStr ''1'',
     received_at = ''t0'', address = Some (JStr ''0xa''), token_address = None, pair_address = None,
     transformed_data = None, raw_data = JNull, retry_count = Some 0, last_error = None, last_retry = None\<rparr>"

definition world0 :: world where
  "world0 = \<lparr>webhook_queue = [], retry_queue = [], failed_events = [], notification_queue = [],
     tokens = [], source_code = [], token_information = [], gpl_audit = [], next_id = 0,
     total_counter = 0, scams_counter = 0, risky_counter = 0, clock = 1000, utc_stamp = ''t1'',
     store_faults = []\<rparr>"

section \<open>Example requests\<close>













section \<open>Example collaborators and store contents\<close>

text \<open>
  Collaborators that answer every call: chain \<^verbatim>\<open>0x1\<close> is \<^verbatim>\<open>ethereum\<close>, addresses are
  already checksummed, the contract is an unverified ERC-20, the audit returns an owner
  and a low risk level.
\<close>

definition collab0 :: collab where
  "collab0 =
     \<lparr>convert_chain_id_to_blockchain = (\<lambda>cid. Inr (JStr ''ethereum'')),
      initialize_infura_web3_object = (\<lambda>b. Inr ()),
      web3_to_checksum_address = (\<lambda>a. Inr a),
      get_eth_contract_info = (\<lambda>a. Inr (JDict [(''name'', JStr ''Tok''), (''symbol'', JStr ''TOK'')])),
      get_contract_source_code = (\<lambda>a. Inr (JDict [(''contract_verified'', JBool False)])),
      get_token_socials = (\<lambda>s. Inr (JDict [])),
      get_eth_token_security_info =
        (\<lambda>a v k. Inr (JDict [(''raw_results'', JDict [(''owner_address'', JStr ''0xabc'')]),
                              (''risk_level'', JStr ''Low'')])),
      get_token_classification = (\<lambda>n s. Inr (JStr ''memecoins'', JNum 1)),
      float_of_text = (\<lambda>s. None)\<rparr>"

text \<open>
  A store that tracks the token \<^verbatim>\<open>0xT\<close> on \<^verbatim>\<open>ethereum\<close>, linked to the audit row
  with id 1.
\<close>

definition tracked_world :: world where
  "tracked_world =
     world0\<lparr>tokens := [[(''address'', JStr ''0xT''), (''blockchain'', JStr ''ethereum''),
                         (''dex_pair'', JStr ''0xP''), (''is_scam'', JBool False),
                         (''gpl_audit_id'', JNum 1)]],
            gpl_audit := [[(''id'', JNum 1), (''raw_results'', JDict [(''owner_address'', JStr ''0xold'')])]],
            next_id := 1\<rparr>"

text \<open>What a later event knows about the token after a fresh audit.\<close>

definition audited_token_data :: pydict where
  "audited_token_data =
     [(''address'', JStr ''0xT''), (''chain_id'', JStr ''0x1''),
      (''raw_results'', JDict [(''owner_address'', JStr ''0xabc'')])]"

text \<open>The same store with the token marked as a scam, and a \<^verbatim>\<open>new_pair\<close> job for it.\<close>

definition scam_world :: world where
  "scam_world =
     world0\<lparr>tokens := [[(''address'', JStr ''0xT''), (''blockchain'', JStr ''ethereum''),
                         (''is_scam'', JBool True), (''gpl_audit_id'', JNum 1)]],
            gpl_audit := [[(''id'', JNum 1)]], next_id := 1\<rparr>"

definition new_pair_job :: event_data where
  "new_pair_job =
     job0\<lparr>event_type := ''new_pair'', address := None,
          token_address := Some (JStr ''0xT''), pair_address := Some (JStr ''0xP'')\<rparr>"





section \<open>Retry policy\<close>



lemma zadd_other: "m' \<noteq> m \<Longrightarrow> map_of (zadd q m s) m' = map_of q m'"
  by (induction q m s rule: zadd.induct) auto








section \<open>Notification filters: verification\<close>


lemma ebind_Inl: "ebind (Inl e) f = Inl e"
  by (simp add: ebind_def)





text \<open>
  Claim C4, at the input where the code departs from it. With the empty filter record
  \<^verbatim>\<open>{}\<close> the classification filter reads as the empty string, which is neither
  \<^verbatim>\<open>'all'\<close> nor \<^verbatim>\<open>'exclude memecoins'\<close>, so line 356 compares it with the snapshot's
  classification and \<^verbatim>\<open>apply_filters\<close> returns \<^verbatim>\<open>False\<close> for a snapshot classified
  \<^verbatim>\<open>memecoins\<close>.
\<close>

theorem apply_filters_empty_filter_rejects_classified:
  "apply_filters pf [] [(''classification'', JStr ''memecoins'')] = Inr False"
  by (simp add: apply_filters_def dict_get_def dict_get_default_def ebind_def Let_def
      blockchain_excluded_def check_socials_exist_def lower_def lower_char_def)



section \<open>Webhook gateway: verification\<close>






subsection \<open>Status codes\<close>






subsection \<open>Jobs queued per classification\<close>









section \<open>Persistence: verification\<close>


lemma bnd_ret: "bnd (ret x) f = f x"
  by (simp add: bnd_def ret_def)

text \<open>
  Claim C3, at the input where the code departs from it. The token \<^verbatim>\<open>0xT\<close> is
  linked to the audit row 1. A later event carries a fresh audit and calls
  \<^verbatim>\<open>update_pair_data_in_supabase\<close> with \<^verbatim>\<open>gpl_audit_id = 1\<close>. Line 1020 reads the key
  \<^verbatim>\<open>gpl_audit_results\<close>, which the dict never has, so the branch that updates row 1 is
  skipped: a second audit row (id 2) is made, the token is linked to it, and row 1 stays
  behind unchanged.
\<close>

theorem update_pair_data_relinks_audit:
  "(case update_pair_data_in_supabase collab0 audited_token_data JNull (JNum 1) JNull tracked_world of
      (r, w') \<Rightarrow>
        r = Inr (JStr ''0xT'', audited_token_data) \<and>
        map (\<lambda>row. dict_get row ''id'') (gpl_audit w') = [JNum 1, JNum 2] \<and>
        map (\<lambda>row. dict_get row ''gpl_audit_id'') (tokens w') = [JNum 2] \<and>
        hd (gpl_audit w') = hd (gpl_audit tracked_world))"
  by (simp add: update_pair_data_in_supabase_def keep_renounced_def is_token_renounced_def
      collab0_def audited_token_data_def tracked_world_def world0_def
      bnd_def lift_def ret_def try_except_def now_iso_def store_request_def
      select_tokens_def update_tokens_def child_upsert_def link_new_row_def first_field_def
      fresh_id_def dict_index_def dict_get_def dict_set_def dict_update_def pick_def audit_row_def
      row_matches_def check_socials_exist_def Let_def)

text \<open>
  Before the call the token is linked to the audit row 1, the only one; after it the
  token is linked to another row.
\<close>

theorem update_pair_data_relinks_audit_witness:
  "map (\<lambda>row. dict_get row ''gpl_audit_id'') (tokens tracked_world) = [JNum 1] \<and>
   map (\<lambda>row. dict_get row ''id'') (gpl_audit tracked_world) = [JNum 1] \<and>
   map (\<lambda>row. dict_get row ''gpl_audit_id'')
     (tokens (snd (update_pair_data_in_supabase collab0 audited_token_data JNull (JNum 1) JNull
        tracked_world))) = [JNum 2]"
proof -
  have b: "map (\<lambda>row. dict_get row ''gpl_audit_id'') (tokens tracked_world) = [JNum 1] \<and>
      map (\<lambda>row. dict_get row ''id'') (gpl_audit tracked_world) = [JNum 1]"
    by (simp add: tracked_world_def world0_def dict_get_def)
  show ?thesis
    using update_pair_data_relinks_audit b
    by (simp split: prod.splits)
qed

section \<open>Enrichment pipeline: verification\<close>

text \<open>
  Claim C9. A \<^verbatim>\<open>new_pair\<close> job carries its token and pair address; the chain id
  converts, the address checksums, and the lookup of lines 227--231 answers with a row
  whose \<^verbatim>\<open>is_scam\<close> is true. Then \<^verbatim>\<open>process_webhook\<close> returns \<^verbatim>\<open>True\<close>, and nothing
  but the consumed entry of the fault script differs in the state: no table row, no
  counter, no queue, no notification.
\<close>

theorem new_pair_scam_token_is_terminal:
  assumes ty: "event_type ev = ''new_pair''"
    and pa: "pair_address ev = Some pair"
    and ta: "token_address ev = Some tok"
    and bc: "convert_chain_id_to_blockchain c (chain_id ev) = Inr blockchain"
    and wb: "initialize_infura_web3_object c blockchain = Inr ()"
    and ck: "web3_to_checksum_address c tok = Inr addr"
    and nf: "store_faults w = [] \<or> hd (store_faults w) = False"
    and ex: "filter (row_matches [(''address'', addr), (''blockchain'', blockchain)]) (tokens w) =
               existing_data # rest"
    and sc: "truthy (dict_get existing_data ''is_scam'')"
  shows "process_webhook cfg c ev w = (Inr True, w\<lparr>store_faults := tl (store_faults w)\<rparr>)"
proof -
  have sel: "select_tokens [(''address'', addr), (''blockchain'', blockchain)] w =
      (Inr (existing_data # rest), w\<lparr>store_faults := tl (store_faults w)\<rparr>)"
    using nf ex
    by (cases "store_faults w") (auto simp: select_tokens_def store_request_def bnd_def)
  have "process_new_pair cfg c ev w = (Inr True, w\<lparr>store_faults := tl (store_faults w)\<rparr>)"
    unfolding process_new_pair_def
    by (simp add: try_except_def bnd_def lift_def ret_def job_key_def ebind_def
        pa ta bc wb ck sel sc Let_def)
  then show ?thesis
    by (simp add: process_webhook_def try_except_def ty)
qed

theorem new_pair_scam_token_is_terminal_witness:
  "process_webhook cfg3 collab0 new_pair_job scam_world = (Inr True, scam_world) \<and>
   tokens scam_world \<noteq> [] \<and> notification_queue scam_world = []"
  using new_pair_scam_token_is_terminal [of new_pair_job "JStr ''0xP''" "JStr ''0xT''" collab0
      "JStr ''ethereum''" "JStr ''0xT''" scam_world
      "[(''address'', JStr ''0xT''), (''blockchain'', JStr ''ethereum''),
        (''is_scam'', JBool True), (''gpl_audit_id'', JNum 1)]" "[]" cfg3]
  by (simp add: new_pair_job_def job0_def collab0_def scam_world_def world0_def row_matches_def
      dict_get_def)

subsection \<open>Failed jobs and the retry contract\<close>



























subsection \<open>The retry step\<close>

















































lemma zremrangebyscore_set:
  "set (zremrangebyscore q lo hi) = {(m, s). (m, s) \<in> set q \<and> \<not> (lo \<le> s \<and> s \<le> hi)}"
  by (auto simp: zremrangebyscore_def)









end
